theory Spec2Isabelle
  imports Main "HOL-Library.AList" "HOL-Library.Sublist"
begin

section \<open>JavaScript values\<close>

text \<open>
  The values that flow through \<^verbatim>\<open>src/index.ts\<close>. Numbers are restricted to integers.
  An object carries the class it was constructed from (the constructor it inherits
  through its prototype chain) and its own enumerable properties in insertion order.
  The tables of the program (mocks, resolvers, operations) are plain objects: reading
  a key that is not an own property of a table finds the members of
  \<^verbatim>\<open>Object.prototype\<close>. The key \<^verbatim>\<open>__proto__\<close>, which an assignment takes for the prototype
  and not for a property, is taken not to occur as an own key of a table.
\<close>

datatype klass =
    GraphQLError          \<comment> \<open>the constructor imported from the graphql package\<close>
  | Extends string        \<comment> \<open>a class extending the imported constructor, with its name\<close>
  | Named string          \<comment> \<open>any other constructor, with its name\<close>

datatype jsval =
    Undefined
  | Null
  | Bool bool
  | Num int
  | Str string
  | Arr "jsval list"
  | Obj klass "(string \<times> jsval) list"
  | Fun nat               \<comment> \<open>a function written by the test author, by identity\<close>
  | ConstFn jsval         \<comment> \<open>the closure \<^verbatim>\<open>() => m\<close> built by resolveMocks\<close>
  | Ctor klass            \<comment> \<open>the constructor function of a class\<close>
  | Method string         \<comment> \<open>a method of \<^verbatim>\<open>Object.prototype\<close>, by its name\<close>
  | ObjectPrototype       \<comment> \<open>the object \<^verbatim>\<open>Object.prototype\<close> itself\<close>

type_synonym jsobj = "(string \<times> jsval) list"

abbreviation PlainObject :: klass where
  "PlainObject \<equiv> Named ''Object''"

abbreviation EmptyObject :: jsval where
  "EmptyObject \<equiv> Obj PlainObject []"

datatype jstype = TUndefined | TObject | TBoolean | TNumber | TString | TFunction

fun typeof :: "jsval \<Rightarrow> jstype" where
  "typeof Undefined = TUndefined"
| "typeof Null = TObject"
| "typeof (Bool b) = TBoolean"
| "typeof (Num n) = TNumber"
| "typeof (Str s) = TString"
| "typeof (Arr xs) = TObject"
| "typeof (Obj k fs) = TObject"
| "typeof (Fun f) = TFunction"
| "typeof (ConstFn v) = TFunction"
| "typeof (Ctor k) = TFunction"
| "typeof (Method m) = TFunction"
| "typeof ObjectPrototype = TObject"

fun isArray :: "jsval \<Rightarrow> bool" where
  "isArray (Arr xs) = True"
| "isArray v = False"

text \<open>Truthiness, as \<^verbatim>\<open>!x\<close> and \<^verbatim>\<open>x || y\<close> test it.\<close>

fun truthy :: "jsval \<Rightarrow> bool" where
  "truthy Undefined = False"
| "truthy Null = False"
| "truthy (Bool b) = b"
| "truthy (Num n) = (n \<noteq> 0)"
| "truthy (Str s) = (s \<noteq> [])"
| "truthy v = True"

subsection \<open>Calling functions\<close>

datatype completion = Return jsval | Throw jsval

text \<open>
  What the functions of the test author do is given by the host: \<open>call h f args\<close> is the
  completion of applying the function with identity \<open>f\<close> to \<open>args\<close>, and \<open>fn_name h f\<close> is
  its \<^verbatim>\<open>name\<close>. The host also says what a built-in function does where the model does
  not fix it (\<open>call_builtin\<close>, applied without a receiver), and what an instance of a
  class other than \<^verbatim>\<open>Object\<close> inherits under a key (\<open>inherited\<close>).
\<close>

record GQLRequestPayload =
  operationName :: "string option"   \<comment> \<open>\<open>None\<close>: null or undefined\<close>
  query :: string
  variables :: jsval

datatype js_error = TypeError | SyntaxError | Error string

record host =
  call :: "nat \<Rightarrow> jsval list \<Rightarrow> completion"
  JSON_parse :: "string \<Rightarrow> js_error + GQLRequestPayload"
    \<comment> \<open>\<^verbatim>\<open>JSON.parse\<close> read at the declared type of the payload\<close>
  fn_name :: "nat \<Rightarrow> string"
  call_builtin :: "jsval \<Rightarrow> jsval list \<Rightarrow> completion"
  inherited :: "klass \<Rightarrow> string \<Rightarrow> jsval"

text \<open>
  \<^verbatim>\<open>Object(value)\<close>, called as a function: a new empty object for \<^verbatim>\<open>undefined\<close>, \<^verbatim>\<open>null\<close>
  or no argument; an object or a function is returned as it is; for a primitive the
  host supplies the wrapper object.
\<close>

fun object_call :: "host \<Rightarrow> jsval list \<Rightarrow> completion" where
  "object_call h [] = Return EmptyObject"
| "object_call h (Undefined # args) = Return EmptyObject"
| "object_call h (Null # args) = Return EmptyObject"
| "object_call h (Bool b # args) = call_builtin h (Ctor PlainObject) (Bool b # args)"
| "object_call h (Num n # args) = call_builtin h (Ctor PlainObject) (Num n # args)"
| "object_call h (Str s # args) = call_builtin h (Ctor PlainObject) (Str s # args)"
| "object_call h (v # args) = Return v"

text \<open>
  A call \<^verbatim>\<open>op(args)\<close> without a receiver. \<^verbatim>\<open>Object.prototype.toString\<close> answers
  \<^verbatim>\<open>"[object Undefined]"\<close> for the receiver \<^verbatim>\<open>undefined\<close>. A value that is not a function
  cannot be called.
\<close>

fun apply_fn :: "host \<Rightarrow> jsval \<Rightarrow> jsval list \<Rightarrow> completion" where
  "apply_fn h (Fun f) args = call h f args"
| "apply_fn h (ConstFn v) args = Return v"
| "apply_fn h (Ctor k) args =
     (if k = PlainObject then object_call h args else call_builtin h (Ctor k) args)"
| "apply_fn h (Method m) args =
     (if m = ''toString'' then Return (Str ''[object Undefined]'')
      else call_builtin h (Method m) args)"
| "apply_fn h v args = Throw (Obj (Named ''TypeError'') [])"

subsection \<open>Objects\<close>

text \<open>
  What a plain object inherits: the members of \<^verbatim>\<open>Object.prototype\<close>. Its \<^verbatim>\<open>__proto__\<close>
  is an accessor that gives the prototype.
\<close>

definition object_methods :: "string list" where
  "object_methods =
     [''toString'', ''toLocaleString'', ''valueOf'', ''hasOwnProperty'', ''isPrototypeOf'',
      ''propertyIsEnumerable'', ''__defineGetter__'', ''__defineSetter__'',
      ''__lookupGetter__'', ''__lookupSetter__'']"

definition object_prototype :: "string \<Rightarrow> jsval" where
  "object_prototype key =
     (if key = ''constructor'' then Ctor PlainObject
      else if key = ''__proto__'' then ObjectPrototype
      else if key \<in> set object_methods then Method key
      else Undefined)"

text \<open>
  \<^verbatim>\<open>Object.keys(o)\<close> and \<^verbatim>\<open>o[key] = v\<close> work on own properties; the read \<^verbatim>\<open>o[key]\<close> finds
  an own property first and an inherited one otherwise.
\<close>

definition keys :: "jsobj \<Rightarrow> string list" where
  "keys object = map fst object"

definition get :: "jsobj \<Rightarrow> string \<Rightarrow> jsval" where
  "get object key =
     (case map_of object key of None \<Rightarrow> object_prototype key | Some v \<Rightarrow> v)"

definition put :: "string \<Rightarrow> jsval \<Rightarrow> jsobj \<Rightarrow> jsobj" where
  "put key v object = AList.update key v object"

text \<open>
  One spread element \<^verbatim>\<open>...source\<close> of an object literal: every own property of the
  source is written to the object under construction, in the order of the source.
\<close>

definition spread :: "jsobj \<Rightarrow> jsobj \<Rightarrow> jsobj" where
  "spread target source = fold (\<lambda>key result. put key (get source key) result) (keys source) target"

text \<open>\<^verbatim>\<open>{ ...a, ...b }\<close>\<close>

definition spread2 :: "jsobj \<Rightarrow> jsobj \<Rightarrow> jsobj" where
  "spread2 a b = spread (spread [] a) b"

text \<open>
  The own enumerable properties a spread copies out of a value. \<^verbatim>\<open>null\<close>,
  \<^verbatim>\<open>undefined\<close>, functions and \<^verbatim>\<open>Object.prototype\<close> contribute nothing. Arrays and
  strings (which have index properties) never reach a spread in this program.
\<close>

fun own_props :: "jsval \<Rightarrow> jsobj" where
  "own_props (Obj k fs) = fs"
| "own_props v = []"

section \<open>The helpers of index.ts\<close>

definition isObject :: "jsval \<Rightarrow> bool" where
  "isObject what = (typeof what = TObject \<and> \<not> isArray what)"

definition objectMap :: "jsobj \<Rightarrow> (jsval \<Rightarrow> string \<Rightarrow> jsval) \<Rightarrow> jsobj" where
  "objectMap object mapFn =
     fold (\<lambda>key result. put key (mapFn (get object key) key) result) (keys object) []"

definition asFunction :: "jsval \<Rightarrow> jsval" where
  "asFunction m = (if typeof m = TFunction then m else ConstFn m)"

definition resolveMocks :: "jsobj \<Rightarrow> jsobj" where
  "resolveMocks mocks = objectMap mocks (\<lambda>m key. asFunction m)"

definition mergeMocks :: "jsobj \<Rightarrow> jsobj \<Rightarrow> jsobj" where
  "mergeMocks currentMocks mocks =
     spread2 currentMocks
       (objectMap mocks (\<lambda>value key.
          let currentValue = get currentMocks key in
          if isObject currentValue \<and> isObject value
          then Obj PlainObject (spread2 (own_props currentValue) (own_props value))
          else value))"

definition getRootValue :: "host \<Rightarrow> jsobj \<Rightarrow> string option \<Rightarrow> jsval \<Rightarrow> jsval" where
  "getRootValue h operations opName vars =
     (case opName of
        None \<Rightarrow> EmptyObject
      | Some name \<Rightarrow>
          if name = [] \<or> \<not> truthy (get operations name) then EmptyObject
          else
            let op = get operations name in
            if typeof op = TFunction
            then (case apply_fn h op [vars] of Return v \<Rightarrow> v | Throw e \<Rightarrow> e)
            else op)"

subsection \<open>The check for a GraphQL error\<close>

text \<open>
  The three tests of the condition in \<^verbatim>\<open>fetch\<close>: \<^verbatim>\<open>rootValue instanceof GraphQLError\<close>,
  \<^verbatim>\<open>rootValue.constructor === GraphQLError\<close> and
  \<^verbatim>\<open>rootValue.constructor.name === "GraphQLError"\<close>. Reading a property of \<^verbatim>\<open>null\<close> or
  \<^verbatim>\<open>undefined\<close> throws a TypeError; \<^verbatim>\<open>instanceof\<close> does not. An own property
  \<^verbatim>\<open>constructor\<close> or \<^verbatim>\<open>name\<close> of an object shadows the inherited one.
\<close>

fun instanceof_GraphQLError :: "jsval \<Rightarrow> bool" where
  "instanceof_GraphQLError (Obj GraphQLError fs) = True"
| "instanceof_GraphQLError (Obj (Extends n) fs) = True"
| "instanceof_GraphQLError v = False"

fun klass_name :: "klass \<Rightarrow> string" where
  "klass_name GraphQLError = ''GraphQLError''"
| "klass_name (Extends n) = n"
| "klass_name (Named n) = n"

text \<open>\<^verbatim>\<open>rootValue.constructor\<close>\<close>

fun constructor_of :: "jsval \<Rightarrow> js_error + jsval" where
  "constructor_of Undefined = Inl TypeError"
| "constructor_of Null = Inl TypeError"
| "constructor_of (Bool b) = Inr (Ctor (Named ''Boolean''))"
| "constructor_of (Num n) = Inr (Ctor (Named ''Number''))"
| "constructor_of (Str s) = Inr (Ctor (Named ''String''))"
| "constructor_of (Arr xs) = Inr (Ctor (Named ''Array''))"
| "constructor_of (Obj k fs) =
     Inr (case map_of fs ''constructor'' of None \<Rightarrow> Ctor k | Some c \<Rightarrow> c)"
| "constructor_of (Fun f) = Inr (Ctor (Named ''Function''))"
| "constructor_of (ConstFn v) = Inr (Ctor (Named ''Function''))"
| "constructor_of (Ctor k) = Inr (Ctor (Named ''Function''))"
| "constructor_of (Method m) = Inr (Ctor (Named ''Function''))"
| "constructor_of ObjectPrototype = Inr (Ctor PlainObject)"

text \<open>
  \<^verbatim>\<open>c.name\<close>, for the value \<open>c\<close> of \<^verbatim>\<open>rootValue.constructor\<close>. A function has its name; the
  closure of resolveMocks is anonymous; primitives, arrays and \<^verbatim>\<open>Object.prototype\<close> have
  no such property.
\<close>

fun name_of :: "host \<Rightarrow> jsval \<Rightarrow> js_error + jsval" where
  "name_of h Undefined = Inl TypeError"
| "name_of h Null = Inl TypeError"
| "name_of h (Ctor k) = Inr (Str (klass_name k))"
| "name_of h (Method m) = Inr (Str m)"
| "name_of h (Fun f) = Inr (Str (fn_name h f))"
| "name_of h (ConstFn v) = Inr (Str [])"
| "name_of h (Obj k fs) =
     Inr (case map_of fs ''name'' of
            Some n \<Rightarrow> n
          | None \<Rightarrow> if k = PlainObject then Undefined else inherited h k ''name'')"
| "name_of h v = Inr Undefined"

definition isGraphQLError :: "host \<Rightarrow> jsval \<Rightarrow> js_error + bool" where
  "isGraphQLError h rootValue =
     (if instanceof_GraphQLError rootValue then Inr True
      else case constructor_of rootValue of
             Inl e \<Rightarrow> Inl e
           | Inr c \<Rightarrow>
               if c = Ctor GraphQLError then Inr True
               else (case name_of h c of
                       Inl e \<Rightarrow> Inl e
                     | Inr n \<Rightarrow> Inr (n = Str ''GraphQLError'')))"

section \<open>Process-wide state\<close>

datatype schema_source = SDL string | SDLs "string list" | Introspection jsval

record SetOperationsOpts =
  name :: "string option"
  endpoint :: "string option"
  operations :: "jsobj option"
  mocks :: "jsobj option"
  resolvers :: "jsobj option"
  delay :: "int option"

record MockGraphQLOptions = SetOperationsOpts +
  schema :: "schema_source option"

text \<open>
  \<^verbatim>\<open>let commonMocks: any = null; let commonOptions: any = null;\<close> (\<open>None\<close> is null).
  The registration functions take a table, respectively an options object; an object is
  truthy, so \<^verbatim>\<open>!commonMocks\<close> holds exactly while the slot is still null.
\<close>

record globals =
  commonMocks :: "jsobj option"
  commonOptions :: "MockGraphQLOptions option"

definition initial_globals :: globals where
  "initial_globals = \<lparr>commonMocks = None, commonOptions = None\<rparr>"

definition setBaseGraphqlMocks :: "jsobj \<Rightarrow> globals \<Rightarrow> (js_error + jsobj) \<times> globals" where
  "setBaseGraphqlMocks ms g =
     (case commonMocks g of
        None \<Rightarrow> (Inr ms, g\<lparr>commonMocks := Some ms\<rparr>)
      | Some _ \<Rightarrow>
          (Inl (Error ''setBaseGraphqlMocks may only be called once, already called.''), g))"

definition setBaseOperationOptions ::
  "MockGraphQLOptions \<Rightarrow> globals \<Rightarrow> (js_error + MockGraphQLOptions) \<times> globals" where
  "setBaseOperationOptions options g =
     (case commonOptions g of
        None \<Rightarrow> (Inr options, g\<lparr>commonOptions := Some options\<rparr>)
      | Some _ \<Rightarrow>
          (Inl (Error ''setBaseOperationOptions may only be called once, already called.''), g))"

section \<open>A mock session\<close>

text \<open>
  The variables the closures of \<^verbatim>\<open>mockGraphql\<close> share. The executable schema is kept as
  the type definitions handed to \<^verbatim>\<open>makeExecutableSchema\<close>.
\<close>

datatype type_defs =
    TypeDefs string
  | TypeDefList "string list"
  | Printed jsval       \<comment> \<open>\<^verbatim>\<open>printSchema(buildClientSchema(schema))\<close>\<close>

record session =
  session_endpoint :: string
  executableSchema :: type_defs
  currentDelay :: int
  currentOps :: jsobj
  currentMocks :: jsobj
  currentResolvers :: jsobj

fun schemaAsSDL :: "schema_source \<Rightarrow> type_defs" where
  "schemaAsSDL (SDL s) = TypeDefs s"
| "schemaAsSDL (SDLs ss) = TypeDefList ss"
| "schemaAsSDL (Introspection q) = Printed q"

text \<open>
  \<^verbatim>\<open>{ ...(commonOptions || {}), ...(options || {}) }\<close>, field by field: a field of the
  second object, when it has one, overrides the field of the first.
\<close>

definition or_else :: "'a option \<Rightarrow> 'a option \<Rightarrow> 'a option" where
  "or_else b a = (case b of None \<Rightarrow> a | Some x \<Rightarrow> Some x)"

definition no_options :: MockGraphQLOptions where
  "no_options = \<lparr>name = None, endpoint = None, operations = None, mocks = None,
     resolvers = None, delay = None, schema = None\<rparr>"

definition merge_options :: "MockGraphQLOptions \<Rightarrow> MockGraphQLOptions \<Rightarrow> MockGraphQLOptions" where
  "merge_options a b =
     \<lparr>name = or_else (name b) (name a), endpoint = or_else (endpoint b) (endpoint a),
      operations = or_else (operations b) (operations a), mocks = or_else (mocks b) (mocks a),
      resolvers = or_else (resolvers b) (resolvers a), delay = or_else (delay b) (delay a),
      schema = or_else (schema b) (schema a)\<rparr>"

text \<open>
  The session \<^verbatim>\<open>mockGraphql\<close> sets up, with the defaults of its destructuring. Of the
  schemas only the empty string is falsy.
\<close>

definition mockGraphql :: "globals \<Rightarrow> MockGraphQLOptions option \<Rightarrow> js_error + session" where
  "mockGraphql g options =
     (let mergedOptions =
            merge_options (case commonOptions g of None \<Rightarrow> no_options | Some c \<Rightarrow> c)
              (case options of None \<Rightarrow> no_options | Some opts \<Rightarrow> opts)
      in case schema mergedOptions of
           None \<Rightarrow>
             Inl (Error ''Schema must be provided to the mockGraphql or setBaseOperationOptions'')
         | Some sch \<Rightarrow>
             if sch = SDL []
             then Inl (Error ''Schema must be provided to the mockGraphql or setBaseOperationOptions'')
             else Inr \<lparr>session_endpoint =
                         (case endpoint mergedOptions of None \<Rightarrow> ''/graphql'' | Some e \<Rightarrow> e),
                       executableSchema = schemaAsSDL sch,
                       currentDelay = (case delay mergedOptions of None \<Rightarrow> 0 | Some d \<Rightarrow> d),
                       currentOps = (case operations mergedOptions of None \<Rightarrow> [] | Some ops \<Rightarrow> ops),
                       currentMocks = (case mocks mergedOptions of None \<Rightarrow> [] | Some ms \<Rightarrow> ms),
                       currentResolvers =
                         (case resolvers mergedOptions of None \<Rightarrow> [] | Some rs \<Rightarrow> rs)\<rparr>)"

definition setOperations :: "SetOperationsOpts \<Rightarrow> session \<Rightarrow> session" where
  "setOperations options s =
     (let s1 = s\<lparr>currentDelay :=
                   (case delay options of
                      None \<Rightarrow> 0
                    | Some d \<Rightarrow> if truthy (Num d) then d else 0)\<rparr>;
          s2 = s1\<lparr>currentOps :=
                    spread2 (currentOps s1)
                      (case operations options of None \<Rightarrow> [] | Some ops \<Rightarrow> ops)\<rparr>;
          s3 = (case resolvers options of
                  None \<Rightarrow> s2
                | Some rs \<Rightarrow> s2\<lparr>currentResolvers := mergeMocks (currentResolvers s2) rs\<rparr>)
      in case mocks options of
           None \<Rightarrow> s3
         | Some ms \<Rightarrow> s3\<lparr>currentMocks := mergeMocks (currentMocks s3) ms\<rparr>)"

section \<open>The fetch wrapper\<close>

text \<open>The input of \<^verbatim>\<open>fetch\<close>: a string, or a Request object (here with its URL).\<close>

datatype request_info = Url string | Request string

text \<open>
  The fields \<^verbatim>\<open>method\<close> and \<^verbatim>\<open>body\<close> of a \<^verbatim>\<open>RequestInit\<close>, \<open>None\<close> when the init
  does not have the field.
\<close>

record request_init =
  init_method :: "string option"
  init_body :: "string option"

text \<open>
  The arguments of the call
  \<^verbatim>\<open>graphql({ schema: addMocksToSchema({ schema, mocks, resolvers }), source, variableValues, operationName, rootValue })\<close>.
\<close>

record graphql_call =
  exec_schema :: type_defs
  exec_mocks :: jsobj
  exec_resolvers :: jsobj
  exec_source :: string
  exec_variableValues :: jsval
  exec_operationName :: "string option"
  exec_rootValue :: jsval

text \<open>
  What the wrapper returns: the promise of the original fetch, or a promise that, once
  a timer of the given number of milliseconds has fired, resolves to a Response whose
  body is the JSON text of the given value, or of the result of the given execution.
\<close>

datatype fetch_result =
    OriginalFetch request_info "request_init option"
  | ErrorResponse int jsval
  | ExecutionResponse int graphql_call

text \<open>\<^verbatim>\<open>input.indexOf(endpoint)\<close>: the first position of the endpoint in the URL, or -1.\<close>

fun indexOf_from :: "string \<Rightarrow> string \<Rightarrow> int \<Rightarrow> int" where
  "indexOf_from [] e i = (if e = [] then i else - 1)"
| "indexOf_from (c # cs) e i = (if prefix e (c # cs) then i else indexOf_from cs e (i + 1))"

definition indexOf :: "string \<Rightarrow> string \<Rightarrow> int" where
  "indexOf s e = indexOf_from s e 0"

definition error_body :: "jsval \<Rightarrow> jsval" where
  "error_body rootValue =
     Obj PlainObject [(''data'', EmptyObject), (''errors'', Arr [rootValue])]"

text \<open>
  The replacement of \<^verbatim>\<open>win.fetch\<close>. \<open>Inl\<close> is an exception thrown by the wrapper itself:
  by \<^verbatim>\<open>JSON.parse\<close> (which also rejects a missing body, read as the text
  \<^verbatim>\<open>undefined\<close>) or by the check of the root value.
\<close>

definition fetch ::
  "host \<Rightarrow> globals \<Rightarrow> session \<Rightarrow> request_info \<Rightarrow> request_init option
     \<Rightarrow> js_error + fetch_result" where
  "fetch h g s input init =
     (case input of
        Request r \<Rightarrow> Inr (OriginalFetch input init)
      | Url url \<Rightarrow>
          (case init of
             None \<Rightarrow> Inr (OriginalFetch input init)
           | Some i \<Rightarrow>
               if indexOf url (session_endpoint s) \<noteq> - 1 \<and> init_method i = Some ''POST''
               then
                 (case init_body i of
                    None \<Rightarrow> Inl SyntaxError
                  | Some b \<Rightarrow>
                      (case JSON_parse h b of
                         Inl e \<Rightarrow> Inl e
                       | Inr payload \<Rightarrow>
                           let rootValue =
                                 getRootValue h (currentOps s) (operationName payload)
                                   (variables payload)
                           in case isGraphQLError h rootValue of
                                Inl e \<Rightarrow> Inl e
                              | Inr True \<Rightarrow>
                                  Inr (ErrorResponse (currentDelay s) (error_body rootValue))
                              | Inr False \<Rightarrow>
                                  let ms = resolveMocks
                                        (spread2
                                           (case commonMocks g of None \<Rightarrow> [] | Some c \<Rightarrow> c)
                                           (currentMocks s))
                                  in Inr (ExecutionResponse (currentDelay s)
                                       \<lparr>exec_schema = executableSchema s,
                                        exec_mocks = ms,
                                        exec_resolvers = currentResolvers s,
                                        exec_source = query payload,
                                        exec_variableValues = variables payload,
                                        exec_operationName = operationName payload,
                                        exec_rootValue = rootValue\<rparr>)))
               else Inr (OriginalFetch input init)))"

section \<open>Example configurations\<close>

text \<open>
  Request bodies and what the host's \<^verbatim>\<open>JSON.parse\<close> makes of them; any other text is
  rejected with a SyntaxError.
\<close>

definition fails_body :: string where
  \<open>fails_body = ''{"operationName":"Fails","query":"query Fails { user { name } }","variables":{}}''\<close>

definition ping_body :: string where
  \<open>ping_body = ''{"operationName":"Ping","query":"query Ping { user { name } }","variables":{}}''\<close>

definition lazy_body :: string where
  \<open>lazy_body = ''{"operationName":"Lazy","query":"query Lazy { user { name } }","variables":{}}''\<close>

definition broken_body :: string where
  \<open>broken_body = ''{"operationName":"Broken","query":"query Broken { user { name } }","variables":{}}''\<close>

definition disabled_body :: string where
  \<open>disabled_body = ''{"operationName":"Disabled","query":"query Disabled { user { name } }","variables":{}}''\<close>

definition example_payload :: "string \<Rightarrow> GQLRequestPayload" where
  "example_payload nm =
     \<lparr>operationName = Some nm, query = ''query '' @ nm @ '' { user { name } }'',
      variables = EmptyObject\<rparr>"

text \<open>
  The functions of the example: 0 throws a GraphQL error, 1 returns \<^verbatim>\<open>undefined\<close>,
  2 throws \<^verbatim>\<open>null\<close>, every other one returns \<^verbatim>\<open>{ pong: true }\<close>.
\<close>

definition example_host :: host where
  "example_host =
     \<lparr>call = (\<lambda>f args.
         if f = 0 then Throw (Obj GraphQLError [(''message'', Str ''boom'')])
         else if f = 1 then Return Undefined
         else if f = 2 then Throw Null
         else Return (Obj PlainObject [(''pong'', Bool True)])),
      JSON_parse = (\<lambda>b.
         if b = fails_body then Inr (example_payload ''Fails'')
         else if b = ping_body then Inr (example_payload ''Ping'')
         else if b = lazy_body then Inr (example_payload ''Lazy'')
         else if b = broken_body then Inr (example_payload ''Broken'')
         else if b = disabled_body then Inr (example_payload ''Disabled'')
         else Inl SyntaxError),
      fn_name = (\<lambda>f. if f = 0 then ''Fails'' else []),
      call_builtin = (\<lambda>f args. Throw (Obj (Named ''TypeError'') [])),
      inherited = (\<lambda>k key. Undefined)\<rparr>"

definition example_session :: session where
  "example_session =
     \<lparr>session_endpoint = ''/graphql'', executableSchema = TypeDefs ''type Query { user: User }'',
      currentDelay = 250,
      currentOps = [(''Fails'', Fun 0), (''Lazy'', Fun 1), (''Broken'', Fun 2),
                    (''Disabled'', Null), (''Viewer'', Obj PlainObject [(''viewer'', Null)])],
      currentMocks = [(''User'', Obj PlainObject [(''age'', Num 7)])],
      currentResolvers = [(''Query'', Obj PlainObject [(''user'', Fun 5)])]\<rparr>"

definition example_globals :: globals where
  "example_globals =
     \<lparr>commonMocks = Some [(''EnumField'', Fun 3),
                          (''User'', Obj PlainObject [(''name'', Str ''Test User'')])],
      commonOptions = None\<rparr>"

definition post_init :: "string \<Rightarrow> request_init" where
  "post_init b = \<lparr>init_method = Some ''POST'', init_body = Some b\<rparr>"

definition example_override :: SetOperationsOpts where
  "example_override =
     \<lparr>name = None, endpoint = None,
      operations = Some [(''Viewer'', Obj PlainObject [(''admin'', Bool True)])],
      mocks = Some [(''User'', Obj PlainObject [(''name'', Str ''B'')])],
      resolvers = None, delay = None\<rparr>"

section \<open>Properties of the object operations\<close>

lemma map_of_put: "map_of (put k v ob) = (map_of ob)(k \<mapsto> v)"
  by (simp add: put_def update_conv')

lemma keys_put: "set (keys (put k v ob)) = insert k (set (keys ob))"
  by (auto simp: put_def keys_def update_keys)

lemma keys_Nil: "keys [] = []"
  by (simp add: keys_def)

lemma get_own: "map_of ob k = Some v \<Longrightarrow> get ob k = v"
  by (simp add: get_def)

lemma map_of_keys: "k \<in> set (keys ob) \<Longrightarrow> map_of ob k = Some (get ob k)"
  by (auto simp: keys_def get_def map_of_eq_None_iff split: option.splits)

lemma map_of_not_keys: "k \<notin> set (keys ob) \<Longrightarrow> map_of ob k = None"
  by (simp add: keys_def map_of_eq_None_iff)

lemma map_of_fold_put:
  "map_of (fold (\<lambda>key result. put key (F key) result) ks t) k =
     (if k \<in> set ks then Some (F k) else map_of t k)"
  by (induction ks arbitrary: t) (auto simp: map_of_put)

lemma keys_fold_put:
  "set (keys (fold (\<lambda>key result. put key (F key) result) ks t)) = set ks \<union> set (keys t)"
  by (induction ks arbitrary: t) (auto simp: keys_put)

lemma map_of_spread: "map_of (spread t s) = map_of t ++ map_of s"
proof
  fix k
  show "map_of (spread t s) k = (map_of t ++ map_of s) k"
  proof (cases "k \<in> set (keys s)")
    case True
    then show ?thesis
      by (simp add: spread_def map_of_fold_put map_of_keys map_add_def)
  next
    case False
    then show ?thesis
      by (simp add: spread_def map_of_fold_put map_of_not_keys map_add_def)
  qed
qed

lemma map_of_spread2: "map_of (spread2 a b) = map_of a ++ map_of b"
  by (simp add: spread2_def map_of_spread)

lemma map_of_objectMap:
  "map_of (objectMap ob f) k = map_option (\<lambda>v. f v k) (map_of ob k)"
proof (cases "k \<in> set (keys ob)")
  case True
  then show ?thesis by (simp add: objectMap_def map_of_fold_put map_of_keys)
next
  case False
  then show ?thesis by (simp add: objectMap_def map_of_fold_put map_of_not_keys)
qed

lemma set_keys_objectMap: "set (keys (objectMap ob f)) = set (keys ob)"
  by (simp add: objectMap_def keys_fold_put keys_Nil)

lemma keys_put_new: "k \<notin> set (keys ob) \<Longrightarrow> keys (put k v ob) = keys ob @ [k]"
  by (simp add: put_def keys_def update_keys)

lemma keys_fold_put_distinct:
  "distinct ks \<Longrightarrow> set ks \<inter> set (keys t) = {} \<Longrightarrow>
   keys (fold (\<lambda>key result. put key (F key) result) ks t) = keys t @ ks"
proof (induction ks arbitrary: t)
  case Nil
  then show ?case by simp
next
  case (Cons k ks)
  from Cons.prems have new: "k \<notin> set (keys t)" by auto
  from Cons.prems new have "set ks \<inter> set (keys (put k (F k) t)) = {}"
    by (auto simp: keys_put_new)
  with Cons.prems Cons.IH [of "put k (F k) t"] new show ?case
    by (simp add: keys_put_new)
qed

lemma keys_objectMap: "distinct (keys ob) \<Longrightarrow> keys (objectMap ob f) = keys ob"
  by (simp add: objectMap_def keys_fold_put_distinct keys_Nil)

lemma indexOf_from_found: "0 \<le> i \<Longrightarrow> indexOf_from s e i \<noteq> - 1 \<longleftrightarrow> sublist e s"
proof (induction s arbitrary: i)
  case Nil
  then show ?case by auto
next
  case (Cons c cs)
  from Cons.prems have "0 \<le> i + 1" by simp
  from Cons.IH [OF this] Cons.prems show ?case
    by (auto simp: sublist_Cons_right)
qed

lemma indexOf_sublist: "indexOf s e \<noteq> - 1 \<longleftrightarrow> sublist e s"
  by (simp add: indexOf_def indexOf_from_found)

lemma map_of_mergeMocks:
  "map_of (mergeMocks cur ms) k =
     (case map_of ms k of
        None \<Rightarrow> map_of cur k
      | Some v \<Rightarrow>
          Some (if isObject (get cur k) \<and> isObject v
                then Obj PlainObject (spread2 (own_props (get cur k)) (own_props v))
                else v))"
  by (simp add: mergeMocks_def map_of_spread2 map_of_objectMap map_add_def Let_def
      split: option.splits)

text \<open>
  The guard of \<^verbatim>\<open>getRootValue\<close>: a missing or empty name, or a name under which the table
  has (and inherits) nothing truthy, gives the empty object.
\<close>

lemma getRootValue_guard:
  "opName = None \<or> opName = Some [] \<or> (\<exists>nm. opName = Some nm \<and> \<not> truthy (get ops nm))
   \<Longrightarrow> getRootValue h ops opName vars = EmptyObject"
  by (auto simp: getRootValue_def)

lemma get_not_inherited:
  "nm \<notin> set (keys ops) \<Longrightarrow> object_prototype nm = Undefined \<Longrightarrow> get ops nm = Undefined"
  by (simp add: get_def map_of_not_keys)

text \<open>The check for a GraphQL error throws on \<^verbatim>\<open>null\<close> and \<^verbatim>\<open>undefined\<close>.\<close>

lemma isGraphQLError_null: "v = Null \<or> v = Undefined \<Longrightarrow> isGraphQLError h v = Inl TypeError"
  by (auto simp: isGraphQLError_def)

lemma map_of_resolveMocks:
  "map_of (resolveMocks M) k = map_option asFunction (map_of M k)"
  by (simp add: resolveMocks_def map_of_objectMap)

text \<open>A request that matches the endpoint and the method, with a body that parses.\<close>

lemma fetch_matching:
  assumes "indexOf url (session_endpoint s) \<noteq> - 1" and "init_method i = Some ''POST''"
    and "init_body i = Some b" and "JSON_parse h b = Inr p"
  shows "fetch h g s (Url url) (Some i) =
    (let rootValue = getRootValue h (currentOps s) (operationName p) (variables p)
     in case isGraphQLError h rootValue of
          Inl e \<Rightarrow> Inl e
        | Inr True \<Rightarrow> Inr (ErrorResponse (currentDelay s) (error_body rootValue))
        | Inr False \<Rightarrow>
            Inr (ExecutionResponse (currentDelay s)
                  \<lparr>exec_schema = executableSchema s,
                   exec_mocks = resolveMocks
                     (spread2 (case commonMocks g of None \<Rightarrow> [] | Some c \<Rightarrow> c) (currentMocks s)),
                   exec_resolvers = currentResolvers s,
                   exec_source = query p,
                   exec_variableValues = variables p,
                   exec_operationName = operationName p,
                   exec_rootValue = rootValue\<rparr>))"
  using assms by (simp add: fetch_def Let_def split: sum.splits bool.splits)

section \<open>Verified properties\<close>

text \<open>
  Claim C1 (override merging). The claim asks that an override value of any kind other
  than a plain non-array object replaces the base value exactly. \<^verbatim>\<open>isObject\<close> tests
  \<^verbatim>\<open>typeof what === "object"\<close>, which also holds of \<^verbatim>\<open>null\<close>: merging the override
  \<^verbatim>\<open>{ User: null }\<close> into the base \<^verbatim>\<open>{ User: { name: "A" } }\<close> takes the branch
  \<^verbatim>\<open>{ ...currentValue, ...value }\<close> and yields a copy of the base object, not \<^verbatim>\<open>null\<close>.
\<close>

theorem mergeMocks_null_override:
  "mergeMocks [(''User'', Obj PlainObject [(''name'', Str ''A'')])] [(''User'', Null)]
     = [(''User'', Obj PlainObject [(''name'', Str ''A'')])]"
  by (simp add: mergeMocks_def spread2_def spread_def objectMap_def keys_def get_def put_def
      isObject_def)

text \<open>
  Claim C2 (a handler that throws). When the operation table holds a function for the
  (non-empty) operation name and calling it with the request variables throws \<open>E\<close>,
  \<^verbatim>\<open>getRootValue\<close> returns \<open>E\<close> itself; and when the check of the wrapper finds \<open>E\<close> to
  be a GraphQL error, a matching request is answered, behind a timer of the current
  delay, with the body \<^verbatim>\<open>{ data: {}, errors: [E] }\<close>.
\<close>

theorem getRootValue_handler_throws:
  assumes "map_of (currentOps s) nm = Some (Fun f)" and "nm \<noteq> []"
    and "call h f [vars] = Throw E"
  shows "getRootValue h (currentOps s) (Some nm) vars = E \<and>
    (\<forall>url i b p g.
       indexOf url (session_endpoint s) \<noteq> - 1 \<and> init_method i = Some ''POST'' \<and> init_body i = Some b \<and>
       JSON_parse h b = Inr p \<and> operationName p = Some nm \<and> variables p = vars \<and>
       isGraphQLError h E = Inr True \<longrightarrow>
       fetch h g s (Url url) (Some i) =
         Inr (ErrorResponse (currentDelay s)
                (Obj PlainObject [(''data'', EmptyObject), (''errors'', Arr [E])])))"
proof -
  from assms have root: "getRootValue h (currentOps s) (Some nm) vars = E"
    by (simp add: getRootValue_def get_def)
  then show ?thesis
    by (auto simp: fetch_def error_body_def)
qed

text \<open>
  Claim C2 at the operations \<^verbatim>\<open>{ Fails: () => { throw new GraphQLError("boom") } }\<close>
  with a delay of 250 ms.
\<close>

theorem getRootValue_handler_throws_witness:
  "getRootValue example_host (currentOps example_session) (Some ''Fails'') EmptyObject
     = Obj GraphQLError [(''message'', Str ''boom'')] \<and>
   fetch example_host initial_globals example_session (Url ''http://localhost:4000/graphql'')
       (Some (post_init fails_body)) =
     Inr (ErrorResponse 250
            (Obj PlainObject [(''data'', EmptyObject),
               (''errors'', Arr [Obj GraphQLError [(''message'', Str ''boom'')]])]))"
proof -
  have a: "map_of (currentOps example_session) ''Fails'' = Some (Fun 0)"
    by (simp add: example_session_def)
  have b: "''Fails'' \<noteq> []" by simp
  have c: "call example_host 0 [EmptyObject] = Throw (Obj GraphQLError [(''message'', Str ''boom'')])"
    by (simp add: example_host_def)
  have d: "indexOf ''http://localhost:4000/graphql'' (session_endpoint example_session) \<noteq> - 1"
    by (simp add: example_session_def indexOf_def)
  have e: "JSON_parse example_host fails_body = Inr (example_payload ''Fails'')"
    by (simp add: example_host_def)
  have f: "isGraphQLError example_host (Obj GraphQLError [(''message'', Str ''boom'')]) = Inr True"
    by (simp add: isGraphQLError_def)
  from getRootValue_handler_throws [OF a b c] d e f show ?thesis
    by (simp add: post_init_def example_session_def example_payload_def)
qed

text \<open>
  Claim C3 (unconfigured operation). The claim asks for the empty object whenever the
  operation name is not a key of the operation table. The guard reads
  \<^verbatim>\<open>operations[operationName]\<close>, which also finds what the table inherits: for the name
  \<^verbatim>\<open>constructor\<close>, not a key of \<^verbatim>\<open>{ Fails: f }\<close>, it finds \<^verbatim>\<open>Object\<close>, calls it with the
  variables and returns the variables object; for the name \<^verbatim>\<open>toString\<close> on the empty
  table it returns the text \<^verbatim>\<open>[object Undefined]\<close>.
\<close>

theorem getRootValue_inherited_name:
  "''constructor'' \<notin> set (keys [(''Fails'', Fun 0)]) \<and>
   getRootValue h [(''Fails'', Fun 0)] (Some ''constructor'') (Obj PlainObject [(''id'', Num 1)])
     = Obj PlainObject [(''id'', Num 1)] \<and>
   ''toString'' \<notin> set (keys []) \<and>
   getRootValue h [] (Some ''toString'') vars = Str ''[object Undefined]''"
  by (simp add: getRootValue_def get_def keys_def object_prototype_def object_methods_def)

text \<open>
  Claim C4 as stated fails on an entry that is falsy: the guard
  \<^verbatim>\<open>!operations[operationName]\<close> treats the entry \<^verbatim>\<open>null\<close> of \<^verbatim>\<open>{ UserQuery: null }\<close> as
  absent, and the root value is the empty object.
\<close>

theorem getRootValue_literal_counterexample:
  "map_of [(''UserQuery'', Null)] ''UserQuery'' = Some Null \<and> typeof Null \<noteq> TFunction \<and>
   getRootValue example_host [(''UserQuery'', Null)] (Some ''UserQuery'') EmptyObject
     = EmptyObject \<and>
   getRootValue example_host [(''UserQuery'', Null)] (Some ''UserQuery'') EmptyObject \<noteq> Null"
  by (simp add: getRootValue_def get_def)

text \<open>
  Claim C4, amended (literal entry). When the entry for a non-empty operation name is a
  truthy value that is not a function, \<^verbatim>\<open>getRootValue\<close> returns that entry itself,
  whatever the variables.
\<close>

theorem getRootValue_literal:
  "map_of ops nm = Some v \<Longrightarrow> typeof v \<noteq> TFunction \<Longrightarrow> truthy v \<Longrightarrow> nm \<noteq> []
   \<Longrightarrow> getRootValue h ops (Some nm) vars = v"
  by (simp add: getRootValue_def get_def)

text \<open>
  Claim C4, amended, at the operations \<^verbatim>\<open>{ UserQuery: { viewer: null } }\<close>.
\<close>

theorem getRootValue_literal_witness:
  "getRootValue example_host [(''UserQuery'', Obj PlainObject [(''viewer'', Null)])]
     (Some ''UserQuery'') EmptyObject = Obj PlainObject [(''viewer'', Null)]"
  using getRootValue_literal [of "[(''UserQuery'', Obj PlainObject [(''viewer'', Null)])]"
      "''UserQuery''" "Obj PlainObject [(''viewer'', Null)]" example_host EmptyObject]
  by simp

text \<open>
  Claim C5 (registering the base tables). While a slot is still \<^verbatim>\<open>null\<close>, the first call
  of \<^verbatim>\<open>setBaseGraphqlMocks\<close> (of \<^verbatim>\<open>setBaseOperationOptions\<close>) stores its argument and
  returns it; every call after that throws the setup error and leaves the stored value
  as the first call set it.
\<close>

theorem base_registration_once:
  "(commonMocks g = None \<longrightarrow>
      setBaseGraphqlMocks ms g = (Inr ms, g\<lparr>commonMocks := Some ms\<rparr>) \<and>
      (\<forall>ms'. setBaseGraphqlMocks ms' (g\<lparr>commonMocks := Some ms\<rparr>) =
         (Inl (Error ''setBaseGraphqlMocks may only be called once, already called.''),
          g\<lparr>commonMocks := Some ms\<rparr>))) \<and>
   (commonOptions g = None \<longrightarrow>
      setBaseOperationOptions opts g = (Inr opts, g\<lparr>commonOptions := Some opts\<rparr>) \<and>
      (\<forall>opts'. setBaseOperationOptions opts' (g\<lparr>commonOptions := Some opts\<rparr>) =
         (Inl (Error ''setBaseOperationOptions may only be called once, already called.''),
          g\<lparr>commonOptions := Some opts\<rparr>)))"
  by (simp add: setBaseGraphqlMocks_def setBaseOperationOptions_def)

text \<open>
  Claim C5 from the initial state, with the base mocks \<^verbatim>\<open>{ EnumField: () => "CAT" }\<close>.
\<close>

theorem base_registration_once_witness:
  "setBaseGraphqlMocks [(''EnumField'', Fun 3)] initial_globals =
     (Inr [(''EnumField'', Fun 3)],
      \<lparr>commonMocks = Some [(''EnumField'', Fun 3)], commonOptions = None\<rparr>) \<and>
   setBaseGraphqlMocks [(''EnumField'', Fun 4)]
       \<lparr>commonMocks = Some [(''EnumField'', Fun 3)], commonOptions = None\<rparr> =
     (Inl (Error ''setBaseGraphqlMocks may only be called once, already called.''),
      \<lparr>commonMocks = Some [(''EnumField'', Fun 3)], commonOptions = None\<rparr>) \<and>
   setBaseOperationOptions no_options initial_globals =
     (Inr no_options, \<lparr>commonMocks = None, commonOptions = Some no_options\<rparr>) \<and>
   setBaseOperationOptions (no_options\<lparr>delay := Some 5\<rparr>)
       \<lparr>commonMocks = None, commonOptions = Some no_options\<rparr> =
     (Inl (Error ''setBaseOperationOptions may only be called once, already called.''),
      \<lparr>commonMocks = None, commonOptions = Some no_options\<rparr>)"
  using base_registration_once [of initial_globals "[(''EnumField'', Fun 3)]" no_options]
  by (simp add: initial_globals_def)

text \<open>
  Claim C6 (routing). The wrapper hands the request, as it received it, to the original
  fetch whenever the input is not a string, or the URL does not contain the endpoint,
  or there is no init whose method is \<^verbatim>\<open>"POST"\<close>; a request that meets all three
  conditions never reaches the original fetch.
\<close>

theorem fetch_pass_through:
  "(\<not> (\<exists>url i. input = Url url \<and> sublist (session_endpoint s) url \<and>
           init = Some i \<and> init_method i = Some ''POST'') \<longrightarrow>
      fetch h g s input init = Inr (OriginalFetch input init)) \<and>
   ((\<exists>url i. input = Url url \<and> sublist (session_endpoint s) url \<and>
           init = Some i \<and> init_method i = Some ''POST'') \<longrightarrow>
      (\<forall>a b. fetch h g s input init \<noteq> Inr (OriginalFetch a b)))"
  by (auto simp: fetch_def indexOf_sublist Let_def
      split: request_info.splits option.splits sum.splits bool.splits)

text \<open>
  Claim C6 at a Request object, a URL without the endpoint, a GET, a call without init,
  and a POST to the endpoint.
\<close>

theorem fetch_pass_through_witness:
  "fetch example_host example_globals example_session (Request ''http://localhost:4000/graphql'')
       (Some (post_init ping_body)) =
     Inr (OriginalFetch (Request ''http://localhost:4000/graphql'') (Some (post_init ping_body))) \<and>
   fetch example_host example_globals example_session (Url ''http://localhost:4000/rest'')
       (Some (post_init ping_body)) =
     Inr (OriginalFetch (Url ''http://localhost:4000/rest'') (Some (post_init ping_body))) \<and>
   fetch example_host example_globals example_session (Url ''http://localhost:4000/graphql'')
       (Some \<lparr>init_method = Some ''GET'', init_body = None\<rparr>) =
     Inr (OriginalFetch (Url ''http://localhost:4000/graphql'')
            (Some \<lparr>init_method = Some ''GET'', init_body = None\<rparr>)) \<and>
   fetch example_host example_globals example_session (Url ''http://localhost:4000/graphql'') None =
     Inr (OriginalFetch (Url ''http://localhost:4000/graphql'') None) \<and>
   fetch example_host example_globals example_session (Url ''http://localhost:4000/graphql'')
       (Some (post_init ping_body)) \<noteq>
     Inr (OriginalFetch (Url ''http://localhost:4000/graphql'') (Some (post_init ping_body)))"
proof -
  have ep: "session_endpoint example_session = ''/graphql''"
    by (simp add: example_session_def)
  have no: "\<not> sublist ''/graphql'' ''http://localhost:4000/rest''"
    by code_simp
  have yes: "sublist ''/graphql'' ''http://localhost:4000/graphql''"
    by code_simp
  show ?thesis
    using fetch_pass_through [of "Request ''http://localhost:4000/graphql''" example_session
        "Some (post_init ping_body)" example_host example_globals]
      fetch_pass_through [of "Url ''http://localhost:4000/rest''" example_session
        "Some (post_init ping_body)" example_host example_globals]
      fetch_pass_through [of "Url ''http://localhost:4000/graphql''" example_session
        "Some \<lparr>init_method = Some ''GET'', init_body = None\<rparr>" example_host example_globals]
      fetch_pass_through [of "Url ''http://localhost:4000/graphql''" example_session
        None example_host example_globals]
      fetch_pass_through [of "Url ''http://localhost:4000/graphql''" example_session
        "Some (post_init ping_body)" example_host example_globals]
      no yes
    by (simp add: ep post_init_def)
qed

text \<open>
  Claim C7 (resolving a mock table). \<^verbatim>\<open>resolveMocks\<close> keeps the keys (and their order,
  for the distinct keys of an object); an entry that is a function stays as it is; any
  other entry \<open>v\<close> becomes the closure \<^verbatim>\<open>() => v\<close>, which returns \<open>v\<close> itself, nested
  values untouched, whatever it is applied to. The result depends on the table only.
\<close>

theorem resolveMocks_entries:
  "set (keys (resolveMocks M)) = set (keys M) \<and>
   (distinct (keys M) \<longrightarrow> keys (resolveMocks M) = keys M) \<and>
   (\<forall>k v. map_of M k = Some v \<longrightarrow>
      (typeof v = TFunction \<longrightarrow> map_of (resolveMocks M) k = Some v) \<and>
      (typeof v \<noteq> TFunction \<longrightarrow>
         map_of (resolveMocks M) k = Some (ConstFn v) \<and>
         (\<forall>h args. apply_fn h (ConstFn v) args = Return v)))"
proof -
  have "set (keys (resolveMocks M)) = set (keys M)"
    by (simp add: resolveMocks_def set_keys_objectMap)
  moreover have "distinct (keys M) \<longrightarrow> keys (resolveMocks M) = keys M"
    by (simp add: resolveMocks_def keys_objectMap)
  moreover have "\<forall>k v. map_of M k = Some v \<longrightarrow>
      (typeof v = TFunction \<longrightarrow> map_of (resolveMocks M) k = Some v) \<and>
      (typeof v \<noteq> TFunction \<longrightarrow>
         map_of (resolveMocks M) k = Some (ConstFn v) \<and>
         (\<forall>h args. apply_fn h (ConstFn v) args = Return v))"
    by (simp add: map_of_resolveMocks asFunction_def)
  ultimately show ?thesis by blast
qed

text \<open>
  Claim C7 at a table with a function, an object that holds a function, and a number.
\<close>

theorem resolveMocks_entries_witness:
  "keys (resolveMocks [(''EnumField'', Fun 3),
          (''User'', Obj PlainObject [(''name'', Str ''Test User''), (''id'', Fun 4)]),
          (''Int'', Num 7)]) = [''EnumField'', ''User'', ''Int''] \<and>
   map_of (resolveMocks [(''EnumField'', Fun 3),
          (''User'', Obj PlainObject [(''name'', Str ''Test User''), (''id'', Fun 4)]),
          (''Int'', Num 7)]) ''EnumField'' = Some (Fun 3) \<and>
   map_of (resolveMocks [(''EnumField'', Fun 3),
          (''User'', Obj PlainObject [(''name'', Str ''Test User''), (''id'', Fun 4)]),
          (''Int'', Num 7)]) ''User''
     = Some (ConstFn (Obj PlainObject [(''name'', Str ''Test User''), (''id'', Fun 4)])) \<and>
   apply_fn example_host
       (ConstFn (Obj PlainObject [(''name'', Str ''Test User''), (''id'', Fun 4)])) []
     = Return (Obj PlainObject [(''name'', Str ''Test User''), (''id'', Fun 4)])"
  using resolveMocks_entries [of "[(''EnumField'', Fun 3),
          (''User'', Obj PlainObject [(''name'', Str ''Test User''), (''id'', Fun 4)]),
          (''Int'', Num 7)]"]
  by (simp add: keys_def)

text \<open>
  Claim C8 (applying overrides). \<^verbatim>\<open>setOperations\<close> sets the delay to the override's
  delay, or to zero when there is none; the operation table becomes the old one
  overridden key by key (an overriding entry is taken as it is, also when both entries
  are objects); the mock table and the resolver table, when given, are merged into the
  current ones by \<^verbatim>\<open>mergeMocks\<close>; endpoint and schema stay.
\<close>

theorem setOperations_effect:
  "currentDelay (setOperations opts s) = (case delay opts of None \<Rightarrow> 0 | Some d \<Rightarrow> d) \<and>
   map_of (currentOps (setOperations opts s)) =
     map_of (currentOps s) ++ (case operations opts of None \<Rightarrow> Map.empty | Some ops \<Rightarrow> map_of ops) \<and>
   (\<forall>ops k v. operations opts = Some ops \<and> map_of ops k = Some v \<longrightarrow>
      get (currentOps (setOperations opts s)) k = v) \<and>
   currentMocks (setOperations opts s) =
     (case mocks opts of None \<Rightarrow> currentMocks s | Some ms \<Rightarrow> mergeMocks (currentMocks s) ms) \<and>
   currentResolvers (setOperations opts s) =
     (case resolvers opts of None \<Rightarrow> currentResolvers s
      | Some rs \<Rightarrow> mergeMocks (currentResolvers s) rs) \<and>
   session_endpoint (setOperations opts s) = session_endpoint s \<and>
   executableSchema (setOperations opts s) = executableSchema s"
proof -
  have ops: "currentOps (setOperations opts s) =
      spread2 (currentOps s) (case operations opts of None \<Rightarrow> [] | Some ops \<Rightarrow> ops)"
    by (simp add: setOperations_def Let_def split: option.splits)
  have "currentDelay (setOperations opts s) = (case delay opts of None \<Rightarrow> 0 | Some d \<Rightarrow> d)"
    by (simp add: setOperations_def Let_def split: option.splits)
  moreover have "map_of (currentOps (setOperations opts s)) =
      map_of (currentOps s) ++ (case operations opts of None \<Rightarrow> Map.empty | Some ops \<Rightarrow> map_of ops)"
    by (simp add: ops map_of_spread2 split: option.splits)
  moreover have "\<forall>ops k v. operations opts = Some ops \<and> map_of ops k = Some v \<longrightarrow>
      get (currentOps (setOperations opts s)) k = v"
    by (simp add: ops get_def map_of_spread2 map_add_def)
  moreover have "currentMocks (setOperations opts s) =
     (case mocks opts of None \<Rightarrow> currentMocks s | Some ms \<Rightarrow> mergeMocks (currentMocks s) ms)"
    by (simp add: setOperations_def Let_def split: option.splits)
  moreover have "currentResolvers (setOperations opts s) =
     (case resolvers opts of None \<Rightarrow> currentResolvers s
      | Some rs \<Rightarrow> mergeMocks (currentResolvers s) rs)"
    by (simp add: setOperations_def Let_def split: option.splits)
  moreover have "session_endpoint (setOperations opts s) = session_endpoint s"
    by (simp add: setOperations_def Let_def split: option.splits)
  moreover have "executableSchema (setOperations opts s) = executableSchema s"
    by (simp add: setOperations_def Let_def split: option.splits)
  ultimately show ?thesis by blast
qed


text \<open>
  Claim C8 at an override without delay whose \<^verbatim>\<open>Viewer\<close> operation and \<^verbatim>\<open>User\<close> mock
  are objects, as the current entries are: the operation is replaced, the mock merged.
\<close>

theorem setOperations_effect_witness:
  "currentDelay (setOperations example_override example_session) = 0 \<and>
   get (currentOps (setOperations example_override example_session)) ''Viewer''
     = Obj PlainObject [(''admin'', Bool True)] \<and>
   get (currentOps (setOperations example_override example_session)) ''Fails'' = Fun 0 \<and>
   currentMocks (setOperations example_override example_session)
     = [(''User'', Obj PlainObject [(''age'', Num 7), (''name'', Str ''B'')])] \<and>
   currentResolvers (setOperations example_override example_session)
     = [(''Query'', Obj PlainObject [(''user'', Fun 5)])]"
proof -
  have m: "mergeMocks [(''User'', Obj PlainObject [(''age'', Num 7)])]
             [(''User'', Obj PlainObject [(''name'', Str ''B'')])]
           = [(''User'', Obj PlainObject [(''age'', Num 7), (''name'', Str ''B'')])]"
    by (simp add: mergeMocks_def spread2_def spread_def objectMap_def keys_def get_def put_def
        isObject_def)
  show ?thesis
    using setOperations_effect [of example_override example_session] m
    by (simp add: example_override_def example_session_def get_def map_add_def)
qed

text \<open>
  Claim C9 as stated fails in its example: it says that a handler that throws \<^verbatim>\<open>null\<close>
  or \<^verbatim>\<open>undefined\<close> does not lead to a null root value. The \<^verbatim>\<open>catch\<close> of \<^verbatim>\<open>getRootValue\<close>
  returns what was thrown: with the handler \<^verbatim>\<open>Broken: () => { throw null }\<close> the root
  value is \<^verbatim>\<open>null\<close> and the wrapper raises the TypeError.
\<close>

theorem fetch_null_root_value_counterexample:
  "map_of (currentOps example_session) ''Broken'' = Some (Fun 2) \<and>
   call example_host 2 [EmptyObject] = Throw Null \<and>
   getRootValue example_host (currentOps example_session) (Some ''Broken'') EmptyObject = Null \<and>
   fetch example_host example_globals example_session (Url ''http://localhost:4000/graphql'')
       (Some (post_init broken_body)) = Inl TypeError"
proof -
  have ops: "map_of (currentOps example_session) ''Broken'' = Some (Fun 2)"
    by (simp add: example_session_def)
  have thrown: "call example_host 2 [EmptyObject] = Throw Null"
    by (simp add: example_host_def)
  have root: "getRootValue example_host (currentOps example_session) (Some ''Broken'') EmptyObject
      = Null"
    by (simp add: getRootValue_def get_def ops thrown)
  have ep: "indexOf ''http://localhost:4000/graphql'' (session_endpoint example_session) \<noteq> - 1"
    by (simp add: example_session_def indexOf_def)
  have parsed: "JSON_parse example_host broken_body = Inr (example_payload ''Broken'')"
    by (simp add: example_host_def lazy_body_def fails_body_def ping_body_def broken_body_def)
  have "fetch example_host example_globals example_session (Url ''http://localhost:4000/graphql'')
       (Some (post_init broken_body)) = Inl TypeError"
    using root
    by (simp add: fetch_matching [OF ep _ _ parsed] post_init_def example_payload_def
        isGraphQLError_null)
  with ops thrown root show ?thesis by simp
qed

text \<open>
  Claim C9, amended (a null root value). For a matching request whose body parses: when
  \<^verbatim>\<open>getRootValue\<close> gives \<^verbatim>\<open>null\<close> or \<^verbatim>\<open>undefined\<close>, reading \<^verbatim>\<open>rootValue.constructor\<close>
  throws and the wrapper raises a TypeError instead of returning a response. A handler
  that returns \<^verbatim>\<open>undefined\<close> or \<^verbatim>\<open>null\<close>, or throws one of them, leads there; an entry
  that is looked up as falsy does not, since its root value is the empty object.
\<close>

theorem fetch_null_root_value:
  assumes "indexOf url (session_endpoint s) \<noteq> - 1" and "init_method i = Some ''POST''"
    and "init_body i = Some b" and "JSON_parse h b = Inr p"
  shows
    "(getRootValue h (currentOps s) (operationName p) (variables p) = Null \<or>
      getRootValue h (currentOps s) (operationName p) (variables p) = Undefined \<longrightarrow>
        fetch h g s (Url url) (Some i) = Inl TypeError) \<and>
     (\<forall>nm f. operationName p = Some nm \<and> nm \<noteq> [] \<and> map_of (currentOps s) nm = Some (Fun f) \<and>
        (call h f [variables p] = Return Undefined \<or> call h f [variables p] = Return Null \<or>
         call h f [variables p] = Throw Undefined \<or> call h f [variables p] = Throw Null) \<longrightarrow>
        fetch h g s (Url url) (Some i) = Inl TypeError) \<and>
     (\<forall>nm. operationName p = Some nm \<and> \<not> truthy (get (currentOps s) nm) \<longrightarrow>
        getRootValue h (currentOps s) (operationName p) (variables p) = EmptyObject \<and>
        fetch h g s (Url url) (Some i) \<noteq> Inl TypeError)"
proof -
  note step = fetch_matching [OF assms, of g]
  have a: "getRootValue h (currentOps s) (operationName p) (variables p) = Null \<or>
      getRootValue h (currentOps s) (operationName p) (variables p) = Undefined \<longrightarrow>
        fetch h g s (Url url) (Some i) = Inl TypeError"
    by (auto simp: step isGraphQLError_null)
  have b: "\<forall>nm f. operationName p = Some nm \<and> nm \<noteq> [] \<and> map_of (currentOps s) nm = Some (Fun f) \<and>
        (call h f [variables p] = Return Undefined \<or> call h f [variables p] = Return Null \<or>
         call h f [variables p] = Throw Undefined \<or> call h f [variables p] = Throw Null) \<longrightarrow>
        fetch h g s (Url url) (Some i) = Inl TypeError"
  proof (intro allI impI)
    fix nm f
    assume h: "operationName p = Some nm \<and> nm \<noteq> [] \<and> map_of (currentOps s) nm = Some (Fun f) \<and>
        (call h f [variables p] = Return Undefined \<or> call h f [variables p] = Return Null \<or>
         call h f [variables p] = Throw Undefined \<or> call h f [variables p] = Throw Null)"
    then have "getRootValue h (currentOps s) (operationName p) (variables p) = Null \<or>
      getRootValue h (currentOps s) (operationName p) (variables p) = Undefined"
      by (auto simp: getRootValue_def get_def)
    with a show "fetch h g s (Url url) (Some i) = Inl TypeError" by blast
  qed
  have c: "\<forall>nm. operationName p = Some nm \<and> \<not> truthy (get (currentOps s) nm) \<longrightarrow>
        getRootValue h (currentOps s) (operationName p) (variables p) = EmptyObject \<and>
        fetch h g s (Url url) (Some i) \<noteq> Inl TypeError"
  proof (intro allI impI)
    fix nm
    assume "operationName p = Some nm \<and> \<not> truthy (get (currentOps s) nm)"
    then have r: "getRootValue h (currentOps s) (operationName p) (variables p) = EmptyObject"
      by (simp add: getRootValue_def)
    have "isGraphQLError h EmptyObject = Inr False"
      by (simp add: isGraphQLError_def)
    with r show "getRootValue h (currentOps s) (operationName p) (variables p) = EmptyObject \<and>
        fetch h g s (Url url) (Some i) \<noteq> Inl TypeError"
      by (simp add: step)
  qed
  from a b c show ?thesis by blast
qed

text \<open>
  Claim C9, amended, at a handler returning \<^verbatim>\<open>undefined\<close>, a handler throwing \<^verbatim>\<open>null\<close>,
  and the entry \<^verbatim>\<open>null\<close>.
\<close>

theorem fetch_null_root_value_witness:
  "fetch example_host example_globals example_session (Url ''http://localhost:4000/graphql'')
       (Some (post_init lazy_body)) = Inl TypeError \<and>
   fetch example_host example_globals example_session (Url ''http://localhost:4000/graphql'')
       (Some (post_init broken_body)) = Inl TypeError \<and>
   getRootValue example_host (currentOps example_session) (Some ''Disabled'') EmptyObject
     = EmptyObject \<and>
   fetch example_host example_globals example_session (Url ''http://localhost:4000/graphql'')
       (Some (post_init disabled_body)) \<noteq> Inl TypeError"
proof -
  have ep: "indexOf ''http://localhost:4000/graphql'' (session_endpoint example_session) \<noteq> - 1"
    by (simp add: example_session_def indexOf_def)
  have m: "init_method (post_init bd) = Some ''POST''" and bd: "init_body (post_init bd) = Some bd" for bd
    by (simp_all add: post_init_def)
  have p1: "JSON_parse example_host lazy_body = Inr (example_payload ''Lazy'')"
    by (simp add: example_host_def lazy_body_def fails_body_def ping_body_def)
  have p2: "JSON_parse example_host broken_body = Inr (example_payload ''Broken'')"
    by (simp add: example_host_def lazy_body_def fails_body_def ping_body_def broken_body_def)
  have p3: "JSON_parse example_host disabled_body = Inr (example_payload ''Disabled'')"
    by (simp add: example_host_def lazy_body_def fails_body_def ping_body_def broken_body_def
        disabled_body_def)
  show ?thesis
    using fetch_null_root_value [OF ep m bd p1, of example_globals]
      fetch_null_root_value [OF ep m bd p2, of example_globals]
      fetch_null_root_value [OF ep m bd p3, of example_globals]
    by (simp add: example_payload_def example_session_def example_host_def get_def)
qed

text \<open>
  Claim C10 (base mocks at request time). For a matching request whose root value is
  not a GraphQL error, the mocks handed to \<^verbatim>\<open>addMocksToSchema\<close> are the resolved
  top-level spread of the base table (nothing when it is \<^verbatim>\<open>null\<close>) and the current table:
  a key of the current table has the current value, whatever the base holds there, and
  any other key has the base value. \<^verbatim>\<open>mergeMocks\<close> differs: on two objects under one key
  the spread keeps the current object only, \<^verbatim>\<open>mergeMocks\<close> unites them. The resolvers
  handed over are the current resolver table alone.
\<close>

theorem fetch_mocks_by_spread:
  assumes "indexOf url (session_endpoint s) \<noteq> - 1" and "init_method i = Some ''POST''"
    and "init_body i = Some b" and "JSON_parse h b = Inr p"
    and "isGraphQLError h (getRootValue h (currentOps s) (operationName p) (variables p)) = Inr False"
    and "base = (case commonMocks g of None \<Rightarrow> [] | Some c \<Rightarrow> c)"
  shows
    "fetch h g s (Url url) (Some i) =
       Inr (ExecutionResponse (currentDelay s)
             \<lparr>exec_schema = executableSchema s,
              exec_mocks = resolveMocks (spread2 base (currentMocks s)),
              exec_resolvers = currentResolvers s,
              exec_source = query p,
              exec_variableValues = variables p,
              exec_operationName = operationName p,
              exec_rootValue = getRootValue h (currentOps s) (operationName p) (variables p)\<rparr>) \<and>
     (\<forall>k v. map_of (currentMocks s) k = Some v \<longrightarrow>
        map_of (spread2 base (currentMocks s)) k = Some v) \<and>
     (\<forall>k. map_of (currentMocks s) k = None \<longrightarrow>
        map_of (spread2 base (currentMocks s)) k = map_of base k) \<and>
     spread2 [(''User'', Obj PlainObject [(''name'', Str ''Test User'')])]
         [(''User'', Obj PlainObject [(''age'', Num 7)])]
       = [(''User'', Obj PlainObject [(''age'', Num 7)])] \<and>
     mergeMocks [(''User'', Obj PlainObject [(''name'', Str ''Test User'')])]
         [(''User'', Obj PlainObject [(''age'', Num 7)])]
       = [(''User'', Obj PlainObject [(''name'', Str ''Test User''), (''age'', Num 7)])]"
proof -
  have "fetch h g s (Url url) (Some i) =
       Inr (ExecutionResponse (currentDelay s)
             \<lparr>exec_schema = executableSchema s,
              exec_mocks = resolveMocks (spread2 base (currentMocks s)),
              exec_resolvers = currentResolvers s,
              exec_source = query p,
              exec_variableValues = variables p,
              exec_operationName = operationName p,
              exec_rootValue = getRootValue h (currentOps s) (operationName p) (variables p)\<rparr>)"
    using assms(5,6) by (simp add: fetch_matching [OF assms(1-4)] Let_def)
  moreover have "\<forall>k v. map_of (currentMocks s) k = Some v \<longrightarrow>
        map_of (spread2 base (currentMocks s)) k = Some v"
    by (simp add: map_of_spread2 map_add_def)
  moreover have "\<forall>k. map_of (currentMocks s) k = None \<longrightarrow>
        map_of (spread2 base (currentMocks s)) k = map_of base k"
    by (simp add: map_of_spread2 map_add_def)
  moreover have "spread2 [(''User'', Obj PlainObject [(''name'', Str ''Test User'')])]
         [(''User'', Obj PlainObject [(''age'', Num 7)])]
       = [(''User'', Obj PlainObject [(''age'', Num 7)])]"
    by (simp add: spread2_def spread_def keys_def get_def put_def)
  moreover have "mergeMocks [(''User'', Obj PlainObject [(''name'', Str ''Test User'')])]
         [(''User'', Obj PlainObject [(''age'', Num 7)])]
       = [(''User'', Obj PlainObject [(''name'', Str ''Test User''), (''age'', Num 7)])]"
    by (simp add: mergeMocks_def spread2_def spread_def objectMap_def keys_def get_def put_def
        isObject_def)
  ultimately show ?thesis by blast
qed


text \<open>
  Claim C10 at base mocks and current mocks that both hold an object for \<^verbatim>\<open>User\<close>.
\<close>

theorem fetch_mocks_by_spread_witness:
  "fetch example_host example_globals example_session (Url ''http://localhost:4000/graphql'')
       (Some (post_init ping_body)) =
     Inr (ExecutionResponse 250
           \<lparr>exec_schema = TypeDefs ''type Query { user: User }'',
            exec_mocks = [(''EnumField'', Fun 3),
                          (''User'', ConstFn (Obj PlainObject [(''age'', Num 7)]))],
            exec_resolvers = [(''Query'', Obj PlainObject [(''user'', Fun 5)])],
            exec_source = ''query Ping { user { name } }'',
            exec_variableValues = EmptyObject,
            exec_operationName = Some ''Ping'',
            exec_rootValue = EmptyObject\<rparr>)"
proof -
  have ep: "indexOf ''http://localhost:4000/graphql'' (session_endpoint example_session) \<noteq> - 1"
    by (simp add: example_session_def indexOf_def)
  have m: "init_method (post_init ping_body) = Some ''POST''"
    and bd: "init_body (post_init ping_body) = Some ping_body"
    by (simp_all add: post_init_def)
  have pp: "JSON_parse example_host ping_body = Inr (example_payload ''Ping'')"
    by (simp add: example_host_def fails_body_def ping_body_def)
  have root: "getRootValue example_host (currentOps example_session)
      (operationName (example_payload ''Ping'')) (variables (example_payload ''Ping'')) = EmptyObject"
    by (simp add: getRootValue_def example_payload_def example_session_def get_def
        object_prototype_def object_methods_def)
  have chk: "isGraphQLError example_host (getRootValue example_host (currentOps example_session)
      (operationName (example_payload ''Ping'')) (variables (example_payload ''Ping''))) = Inr False"
    by (simp add: root isGraphQLError_def)
  have base: "[(''EnumField'', Fun 3), (''User'', Obj PlainObject [(''name'', Str ''Test User'')])]
      = (case commonMocks example_globals of None \<Rightarrow> [] | Some c \<Rightarrow> c)"
    by (simp add: example_globals_def)
  have ms: "resolveMocks (spread2
        [(''EnumField'', Fun 3), (''User'', Obj PlainObject [(''name'', Str ''Test User'')])]
        (currentMocks example_session))
      = [(''EnumField'', Fun 3), (''User'', ConstFn (Obj PlainObject [(''age'', Num 7)]))]"
    by (simp add: example_session_def resolveMocks_def objectMap_def spread2_def spread_def
        keys_def get_def put_def asFunction_def)
  show ?thesis
    using fetch_mocks_by_spread [OF ep m bd pp chk base]
    by (simp add: ms root) (simp add: example_session_def example_payload_def)
qed

end
